theory Spec2Isabelle
  imports Complex_Main
begin

section \<open>Pulse shapes of \<^verbatim>\<open>pulse_library.py\<close>\<close>

text \<open>
  The three pulse classes of \<^verbatim>\<open>modules/measurement/waveform_control/pulse_library.py\<close>
  are embedded over the reals: a numpy array of floats is a \<open>real list\<close>, an attribute
  set is a record, \<^verbatim>\<open>**kw\<close> is a record of optional values, and every exception the
  code can raise on the way (\<^verbatim>\<open>IndexError\<close> of an index into an empty array,
  \<^verbatim>\<open>ValueError\<close> of two array shapes that do not broadcast) is a value of type
  \<open>error\<close>. Rounding of IEEE doubles, \<^verbatim>\<open>inf\<close> and \<^verbatim>\<open>nan\<close> are not modelled.
\<close>

subsection \<open>Errors and one-dimensional numpy arrays\<close>

datatype error = IndexError | ValueError

type_synonym array = "real list"

text \<open>\<^verbatim>\<open>np.where(cond)[0]\<close>: the indices at which the condition holds, ascending.\<close>

definition np_where :: "(real \<Rightarrow> bool) \<Rightarrow> array \<Rightarrow> nat list" where
  "np_where P xs = filter (\<lambda>i. P (xs ! i)) [0..<length xs]"

text \<open>\<^verbatim>\<open>xs[i:j]\<close> for indices that are not negative.\<close>

definition slice :: "nat \<Rightarrow> nat \<Rightarrow> 'a list \<Rightarrow> 'a list" where
  "slice i j xs = take (j - i) (drop i xs)"

text \<open>
  The shape of an elementwise operation on two one-dimensional arrays: equal lengths, or
  one operand of length one that is stretched; anything else raises \<^verbatim>\<open>ValueError\<close>.
\<close>

definition broadcast_shape :: "nat \<Rightarrow> nat \<Rightarrow> nat option" where
  "broadcast_shape n m =
     (if n = m then Some n else if n = 1 then Some m else if m = 1 then Some n else None)"

text \<open>The entry an operand contributes at index \<open>i\<close> of the broadcast result.\<close>

definition bget :: "array \<Rightarrow> nat \<Rightarrow> real" where
  "bget xs i = (if length xs = 1 then xs ! 0 else xs ! i)"

text \<open>
  \<^verbatim>\<open>wf[i:j] += v\<close> (the array \<^verbatim>\<open>wf\<close> of the source is \<open>wf_arr\<close> here): the
  right-hand side must have the length of the slice or length one.
\<close>

definition iadd_slice :: "array \<Rightarrow> nat \<Rightarrow> nat \<Rightarrow> array \<Rightarrow> error + array" where
  "iadd_slice wf_arr i j v =
     (let k = length (slice i j wf_arr) in
      if length v = k \<or> length v = 1
      then Inr (take i wf_arr @ map (\<lambda>n. wf_arr ! (i + n) + bget v n) [0..<k]
                  @ drop (i + k) wf_arr)
      else Inl ValueError)"

text \<open>
  \<^verbatim>\<open>e -= (e[0] + e[-1]) / 2.\<close> (lines 156, 157, 255 and 270): the offset is computed
  first, then subtracted from every entry. The indices raise on an empty array.
\<close>

definition offset_removed :: "array \<Rightarrow> array" where
  "offset_removed e = map (\<lambda>v. v - (e ! 0 + last e) / 2) e"

definition subtract_offset :: "array \<Rightarrow> error + array" where
  "subtract_offset e = (if e = [] then Inl IndexError else Inr (offset_removed e))"

subsection \<open>The modulation and predistortion transform\<close>

text \<open>
  Modelled from the spec: the closed form of the transform at one sample, from section
  4.1 of the specification, for \<^verbatim>\<open>apply_modulation\<close> of
  \<^verbatim>\<open>modules/measurement/waveform_control/pulse.py\<close>, which is not among the sources.
  Phase and phi_skew are given in degrees.
\<close>

definition radians :: "real \<Rightarrow> real" where
  "radians deg = 2 * pi * deg / 360"

definition mod_I_at :: "real \<Rightarrow> real \<Rightarrow> real \<Rightarrow> real \<Rightarrow> real" where
  "mod_I_at x phi_skew env_I env_Q =
     cos x * env_I - tan (radians phi_skew) * sin x * env_I
       + sin x * env_Q + tan (radians phi_skew) * cos x * env_Q"

definition mod_Q_at :: "real \<Rightarrow> real \<Rightarrow> real \<Rightarrow> real \<Rightarrow> real \<Rightarrow> real" where
  "mod_Q_at x phi_skew alpha env_I env_Q =
     (- sin x * env_I + cos x * env_Q) / (alpha * cos (radians phi_skew))"

text \<open>
  Modelled from the spec: \<^verbatim>\<open>apply_modulation\<close> itself, the closed form applied
  elementwise with \<open>x(t) = 2\<pi>\<cdot>mod_frequency\<cdot>t + phase\<close>. The envelopes are multiplied with
  arrays computed from \<open>tvals\<close> and the two products are added, so the shapes combine by
  the rule of numpy's elementwise arithmetic: envelopes and times of different lengths,
  none of them one, raise \<^verbatim>\<open>ValueError\<close>.
\<close>

definition apply_modulation ::
  "array \<Rightarrow> array \<Rightarrow> array \<Rightarrow> real \<Rightarrow> real \<Rightarrow> real \<Rightarrow> real \<Rightarrow> error + array \<times> array" where
  "apply_modulation I_env Q_env tvals mod_frequency phase phi_skew alpha =
     (case broadcast_shape (length I_env) (length tvals) of
        None \<Rightarrow> Inl ValueError
      | Some k1 \<Rightarrow>
     (case broadcast_shape (length Q_env) (length tvals) of
        None \<Rightarrow> Inl ValueError
      | Some k2 \<Rightarrow>
     (case broadcast_shape k1 k2 of
        None \<Rightarrow> Inl ValueError
      | Some k \<Rightarrow>
          (let x = (\<lambda>i. 2 * pi * mod_frequency * bget tvals i + radians phase) in
           Inr (map (\<lambda>i. mod_I_at (x i) phi_skew (bget I_env i) (bget Q_env i)) [0..<k],
                map (\<lambda>i. mod_Q_at (x i) phi_skew alpha (bget I_env i) (bget Q_env i))
                  [0..<k])))))"

subsection \<open>Attributes and keyword arguments\<close>

text \<open>
  Modelled from the spec: the base class \<^verbatim>\<open>Pulse\<close> of the same missing module. Its
  attributes are those of section 3 of the specification; \<^verbatim>\<open>Mux_DRAG_pulse.__init__\<close>
  (lines 192 to 196) sets the same ones by hand.
\<close>

record Pulse =
  name :: string
  channels :: "string list"
  start_offset :: real
  stop_offset :: real
  t0 :: "real option"
  clock :: "string option"

record MW_IQmod_pulse = Pulse +
  I_channel :: string
  Q_channel :: string
  mod_frequency :: real
  amplitude :: real
  length_s :: real
  phase :: real
  phaselock :: bool
  alpha :: real
  phi_skew :: real

record SSB_DRAG_pulse = Pulse +
  I_channel :: string
  Q_channel :: string
  amplitude :: real
  sigma :: real
  nr_sigma :: real
  motzoi :: real
  mod_frequency :: real
  phase :: real
  phaselock :: bool
  alpha :: real
  phi_skew :: real
  length_s :: real

record Mux_DRAG_pulse = Pulse +
  GI_channel :: string
  GQ_channel :: string
  DI_channel :: string
  DQ_channel :: string
  amplitude :: real
  sigma :: real
  nr_sigma :: real
  motzoi :: real
  mod_frequency :: real
  phase :: real
  phaselock :: bool
  G_alpha :: real
  G_phi_skew :: real
  D_alpha :: real
  D_phi_skew :: real
  length_s :: real

text \<open>
  \<^verbatim>\<open>**kw\<close>: every key one of the classes reads, present or absent. A key that a method
  does not pop stays in the dictionary and is ignored.
\<close>

record kwargs =
  kw_amplitude :: "real option"
  kw_length :: "real option"
  kw_sigma :: "real option"
  kw_nr_sigma :: "real option"
  kw_motzoi :: "real option"
  kw_mod_frequency :: "real option"
  kw_phase :: "real option"
  kw_phaselock :: "bool option"
  kw_alpha :: "real option"
  kw_phi_skew :: "real option"
  kw_G_alpha :: "real option"
  kw_G_phi_skew :: "real option"
  kw_D_alpha :: "real option"
  kw_D_phi_skew :: "real option"
  kw_GI_channel :: "string option"
  kw_GQ_channel :: "string option"
  kw_DI_channel :: "string option"
  kw_DQ_channel :: "string option"

definition no_kw :: kwargs where
  "no_kw = \<lparr>kw_amplitude = None, kw_length = None, kw_sigma = None, kw_nr_sigma = None,
     kw_motzoi = None, kw_mod_frequency = None, kw_phase = None, kw_phaselock = None,
     kw_alpha = None, kw_phi_skew = None, kw_G_alpha = None, kw_G_phi_skew = None,
     kw_D_alpha = None, kw_D_phi_skew = None, kw_GI_channel = None, kw_GQ_channel = None,
     kw_DI_channel = None, kw_DQ_channel = None\<rparr>"

text \<open>\<^verbatim>\<open>kw.pop(key, default)\<close>, as far as its value goes.\<close>

definition pop :: "'a option \<Rightarrow> 'a \<Rightarrow> 'a" where
  "pop v d = (case v of None \<Rightarrow> d | Some x \<Rightarrow> x)"

subsection \<open>The active window\<close>

text \<open>
  Lines 51 and 52 (again 145, 146 and 245, 246):
  \<^verbatim>\<open>idx0 = np.where(tvals >= tvals[0])[0][0]\<close> and
  \<^verbatim>\<open>idx1 = np.where(tvals <= tvals[0] + self.length)[0][-1] + 1\<close>.
\<close>

definition active_window :: "real \<Rightarrow> array \<Rightarrow> error + nat \<times> nat" where
  "active_window len tvals =
     (if tvals = [] then Inl IndexError
      else let ge = np_where (\<lambda>v. v \<ge> tvals ! 0) tvals;
               le = np_where (\<lambda>v. v \<le> tvals ! 0 + len) tvals
           in if ge = [] then Inl IndexError
              else if le = [] then Inl IndexError
              else Inr (ge ! 0, last le + 1))"

subsection \<open>\<^verbatim>\<open>MW_IQmod_pulse\<close>\<close>

definition MW_IQmod_init :: "string \<Rightarrow> string \<Rightarrow> string \<Rightarrow> kwargs \<Rightarrow> MW_IQmod_pulse" where
  "MW_IQmod_init nm I_chan Q_chan kw =
     \<lparr>name = nm, channels = [I_chan, Q_chan], start_offset = 0, stop_offset = 0,
      t0 = None, clock = None,
      MW_IQmod_pulse.I_channel = I_chan,
      MW_IQmod_pulse.Q_channel = Q_chan,
      MW_IQmod_pulse.mod_frequency = pop (kw_mod_frequency kw) 1000000,
      MW_IQmod_pulse.amplitude = pop (kw_amplitude kw) (1 / 10),
      MW_IQmod_pulse.length_s = pop (kw_length kw) (1 / 1000000),
      MW_IQmod_pulse.phase = pop (kw_phase kw) 0,
      MW_IQmod_pulse.phaselock = pop (kw_phaselock kw) True,
      MW_IQmod_pulse.alpha = pop (kw_alpha kw) 1,
      MW_IQmod_pulse.phi_skew = pop (kw_phi_skew kw) 0\<rparr>"

definition MW_IQmod_call :: "kwargs \<Rightarrow> MW_IQmod_pulse \<Rightarrow> MW_IQmod_pulse" where
  "MW_IQmod_call kw self =
     self\<lparr>MW_IQmod_pulse.mod_frequency :=
            pop (kw_mod_frequency kw) (MW_IQmod_pulse.mod_frequency self),
          MW_IQmod_pulse.amplitude := pop (kw_amplitude kw) (MW_IQmod_pulse.amplitude self),
          MW_IQmod_pulse.length_s := pop (kw_length kw) (MW_IQmod_pulse.length_s self),
          MW_IQmod_pulse.phase := pop (kw_phase kw) (MW_IQmod_pulse.phase self),
          MW_IQmod_pulse.phaselock := pop (kw_phaselock kw) (MW_IQmod_pulse.phaselock self),
          MW_IQmod_pulse.alpha := pop (kw_alpha kw) (MW_IQmod_pulse.alpha self),
          MW_IQmod_pulse.phi_skew := pop (kw_phi_skew kw) (MW_IQmod_pulse.phi_skew self)\<rparr>"

definition MW_IQmod_chan_wf :: "MW_IQmod_pulse \<Rightarrow> string \<Rightarrow> array \<Rightarrow> error + array" where
  "MW_IQmod_chan_wf self chan tvals =
     (case active_window (MW_IQmod_pulse.length_s self) tvals of
        Inl e \<Rightarrow> Inl e
      | Inr (idx0, idx1) \<Rightarrow>
          (let wf_arr = replicate (length tvals) 0;
               tvals = (if \<not> MW_IQmod_pulse.phaselock self
                        then map (\<lambda>v. v - tvals ! idx0) tvals else tvals)
           in case apply_modulation (replicate (length tvals) 1) (replicate (length tvals) 0)
                     (slice idx0 idx1 tvals)
                     (MW_IQmod_pulse.mod_frequency self) (MW_IQmod_pulse.phase self)
                     (MW_IQmod_pulse.phi_skew self) (MW_IQmod_pulse.alpha self) of
                Inl e \<Rightarrow> Inl e
              | Inr (I_mod, Q_mod) \<Rightarrow>
                  if chan = MW_IQmod_pulse.I_channel self then iadd_slice wf_arr idx0 idx1 I_mod
                  else if chan = MW_IQmod_pulse.Q_channel self
                       then iadd_slice wf_arr idx0 idx1 Q_mod
                  else Inr wf_arr))"

subsection \<open>\<^verbatim>\<open>SSB_DRAG_pulse\<close>\<close>

definition SSB_DRAG_init :: "string \<Rightarrow> string \<Rightarrow> string \<Rightarrow> kwargs \<Rightarrow> SSB_DRAG_pulse" where
  "SSB_DRAG_init nm I_chan Q_chan kw =
     (let sg = pop (kw_sigma kw) (25 / 100000000);
          ns = pop (kw_nr_sigma kw) 4
      in \<lparr>name = nm, channels = [I_chan, Q_chan], start_offset = 0, stop_offset = 0,
          t0 = None, clock = None,
          SSB_DRAG_pulse.I_channel = I_chan,
          SSB_DRAG_pulse.Q_channel = Q_chan,
          SSB_DRAG_pulse.amplitude = pop (kw_amplitude kw) (1 / 10),
          SSB_DRAG_pulse.sigma = sg,
          SSB_DRAG_pulse.nr_sigma = ns,
          SSB_DRAG_pulse.motzoi = pop (kw_motzoi kw) 0,
          SSB_DRAG_pulse.mod_frequency = pop (kw_mod_frequency kw) 1000000,
          SSB_DRAG_pulse.phase = pop (kw_phase kw) 0,
          SSB_DRAG_pulse.phaselock = pop (kw_phaselock kw) True,
          SSB_DRAG_pulse.alpha = pop (kw_alpha kw) 1,
          SSB_DRAG_pulse.phi_skew = pop (kw_phi_skew kw) 0,
          SSB_DRAG_pulse.length_s = sg * ns\<rparr>)"

definition SSB_DRAG_call :: "kwargs \<Rightarrow> SSB_DRAG_pulse \<Rightarrow> SSB_DRAG_pulse" where
  "SSB_DRAG_call kw self =
     (let sg = pop (kw_sigma kw) (SSB_DRAG_pulse.sigma self);
          ns = pop (kw_nr_sigma kw) (SSB_DRAG_pulse.nr_sigma self)
      in self\<lparr>SSB_DRAG_pulse.amplitude := pop (kw_amplitude kw) (SSB_DRAG_pulse.amplitude self),
              SSB_DRAG_pulse.sigma := sg,
              SSB_DRAG_pulse.nr_sigma := ns,
              SSB_DRAG_pulse.motzoi := pop (kw_motzoi kw) (SSB_DRAG_pulse.motzoi self),
              SSB_DRAG_pulse.mod_frequency :=
                pop (kw_mod_frequency kw) (SSB_DRAG_pulse.mod_frequency self),
              SSB_DRAG_pulse.phase := pop (kw_phase kw) (SSB_DRAG_pulse.phase self),
              SSB_DRAG_pulse.phaselock :=
                pop (kw_phaselock kw) (SSB_DRAG_pulse.phaselock self),
              SSB_DRAG_pulse.length_s := sg * ns\<rparr>)"

text \<open>
  Lines 153 and 154 (again 253 and 269): the Gaussian over the local time axis and its
  scaled derivative, the latter computed from the Gaussian before any offset is removed.
\<close>

definition gauss_envelope :: "real \<Rightarrow> real \<Rightarrow> real \<Rightarrow> array \<Rightarrow> array" where
  "gauss_envelope amp sg mu t = map (\<lambda>v. amp * exp (- (0.5 * ((v - mu)\<^sup>2) / sg\<^sup>2))) t"

definition deriv_envelope :: "real \<Rightarrow> real \<Rightarrow> real \<Rightarrow> array \<Rightarrow> array \<Rightarrow> array" where
  "deriv_envelope mz sg mu t gauss_env =
     map2 (\<lambda>v g. mz * - 1 * (v - mu) / (sg ^ 1) * g) t gauss_env"

definition SSB_DRAG_chan_wf :: "SSB_DRAG_pulse \<Rightarrow> string \<Rightarrow> array \<Rightarrow> error + array" where
  "SSB_DRAG_chan_wf self chan tvals =
     (case active_window (SSB_DRAG_pulse.length_s self) tvals of
        Inl e \<Rightarrow> Inl e
      | Inr (idx0, idx1) \<Rightarrow>
          (let wf_arr = replicate (length tvals) 0;
               t = map (\<lambda>v. v - tvals ! 0) tvals;
               mu = SSB_DRAG_pulse.length_s self / 2;
               tvals = (if \<not> SSB_DRAG_pulse.phaselock self
                        then map (\<lambda>v. v - tvals ! idx0) tvals else tvals);
               gauss_env = gauss_envelope (SSB_DRAG_pulse.amplitude self)
                             (SSB_DRAG_pulse.sigma self) mu t;
               deriv_gauss_env = deriv_envelope (SSB_DRAG_pulse.motzoi self)
                                   (SSB_DRAG_pulse.sigma self) mu t gauss_env
           in case subtract_offset gauss_env of
                Inl e \<Rightarrow> Inl e
              | Inr gauss_env \<Rightarrow>
             (case subtract_offset deriv_gauss_env of
                Inl e \<Rightarrow> Inl e
              | Inr deriv_gauss_env \<Rightarrow>
             (case (if chan = SSB_DRAG_pulse.I_channel self
                    then (case apply_modulation gauss_env deriv_gauss_env
                                 (slice idx0 idx1 tvals)
                                 (SSB_DRAG_pulse.mod_frequency self)
                                 (SSB_DRAG_pulse.phase self)
                                 (SSB_DRAG_pulse.phi_skew self)
                                 (SSB_DRAG_pulse.alpha self) of
                            Inl e \<Rightarrow> Inl e
                          | Inr (I_mod, Q_mod) \<Rightarrow> iadd_slice wf_arr idx0 idx1 I_mod)
                    else Inr wf_arr) of
                Inl e \<Rightarrow> Inl e
              | Inr wf_arr \<Rightarrow>
                  if chan = SSB_DRAG_pulse.Q_channel self
                  then (case apply_modulation gauss_env deriv_gauss_env
                               (slice idx0 idx1 tvals)
                               (SSB_DRAG_pulse.mod_frequency self)
                               (SSB_DRAG_pulse.phase self)
                               (SSB_DRAG_pulse.phi_skew self)
                               (SSB_DRAG_pulse.alpha self) of
                          Inl e \<Rightarrow> Inl e
                        | Inr (I_mod, Q_mod) \<Rightarrow> iadd_slice wf_arr idx0 idx1 Q_mod)
                  else Inr wf_arr))))"

subsection \<open>\<^verbatim>\<open>Mux_DRAG_pulse\<close>\<close>

definition Mux_DRAG_init ::
  "string \<Rightarrow> string \<Rightarrow> string \<Rightarrow> string \<Rightarrow> string \<Rightarrow> kwargs \<Rightarrow> Mux_DRAG_pulse" where
  "Mux_DRAG_init nm GI_chan GQ_chan DI_chan DQ_chan kw =
     (let sg = pop (kw_sigma kw) (25 / 100000000);
          ns = pop (kw_nr_sigma kw) 4
      in \<lparr>name = nm, channels = [GI_chan, GQ_chan, DI_chan, DQ_chan],
          start_offset = 0, stop_offset = 0, t0 = None, clock = None,
          GI_channel = GI_chan, GQ_channel = GQ_chan,
          DI_channel = DI_chan, DQ_channel = DQ_chan,
          Mux_DRAG_pulse.amplitude = pop (kw_amplitude kw) (1 / 10),
          Mux_DRAG_pulse.sigma = sg,
          Mux_DRAG_pulse.nr_sigma = ns,
          Mux_DRAG_pulse.motzoi = pop (kw_motzoi kw) 1,
          Mux_DRAG_pulse.mod_frequency = pop (kw_mod_frequency kw) 1000000,
          Mux_DRAG_pulse.phase = pop (kw_phase kw) 0,
          Mux_DRAG_pulse.phaselock = pop (kw_phaselock kw) True,
          G_alpha = pop (kw_G_alpha kw) 1,
          G_phi_skew = pop (kw_G_phi_skew kw) 0,
          D_alpha = pop (kw_D_alpha kw) 1,
          D_phi_skew = pop (kw_D_phi_skew kw) 0,
          Mux_DRAG_pulse.length_s = sg * ns\<rparr>)"

definition Mux_DRAG_call :: "kwargs \<Rightarrow> Mux_DRAG_pulse \<Rightarrow> Mux_DRAG_pulse" where
  "Mux_DRAG_call kw self =
     (let gi = pop (kw_GI_channel kw) (GI_channel self);
          gq = pop (kw_GQ_channel kw) (GQ_channel self);
          di = pop (kw_DI_channel kw) (DI_channel self);
          dq = pop (kw_DQ_channel kw) (DQ_channel self);
          sg = pop (kw_sigma kw) (Mux_DRAG_pulse.sigma self);
          ns = pop (kw_nr_sigma kw) (Mux_DRAG_pulse.nr_sigma self)
      in self\<lparr>GI_channel := gi, GQ_channel := gq, DI_channel := di, DQ_channel := dq,
              channels := [gi, gq, di, dq],
              Mux_DRAG_pulse.amplitude := pop (kw_amplitude kw) (Mux_DRAG_pulse.amplitude self),
              Mux_DRAG_pulse.sigma := sg,
              Mux_DRAG_pulse.nr_sigma := ns,
              Mux_DRAG_pulse.mod_frequency :=
                pop (kw_mod_frequency kw) (Mux_DRAG_pulse.mod_frequency self),
              Mux_DRAG_pulse.phase := pop (kw_phase kw) (Mux_DRAG_pulse.phase self),
              Mux_DRAG_pulse.phaselock :=
                pop (kw_phaselock kw) (Mux_DRAG_pulse.phaselock self),
              G_alpha := pop (kw_G_alpha kw) (G_alpha self),
              G_phi_skew := pop (kw_G_phi_skew kw) (G_phi_skew self),
              D_alpha := pop (kw_D_alpha kw) (D_alpha self),
              D_phi_skew := pop (kw_D_phi_skew kw) (D_phi_skew self),
              Mux_DRAG_pulse.length_s := sg * ns\<rparr>)"

definition Mux_DRAG_chan_wf :: "Mux_DRAG_pulse \<Rightarrow> string \<Rightarrow> array \<Rightarrow> error + array" where
  "Mux_DRAG_chan_wf self chan tvals =
     (case active_window (Mux_DRAG_pulse.length_s self) tvals of
        Inl e \<Rightarrow> Inl e
      | Inr (idx0, idx1) \<Rightarrow>
          (let wf_arr = replicate (length tvals) 0;
               t = map (\<lambda>v. v - tvals ! 0) tvals;
               mu = Mux_DRAG_pulse.length_s self / 2;
               tvals = (if \<not> Mux_DRAG_pulse.phaselock self
                        then map (\<lambda>v. v - tvals ! idx0) tvals else tvals);
               gauss_env = gauss_envelope (Mux_DRAG_pulse.amplitude self)
                             (Mux_DRAG_pulse.sigma self) mu t
           in if chan \<in> set [GI_channel self, GQ_channel self]
              then (case subtract_offset gauss_env of
                      Inl e \<Rightarrow> Inl e
                    | Inr gauss_env \<Rightarrow>
                   (case apply_modulation gauss_env (replicate (length tvals) 0)
                           (slice idx0 idx1 tvals)
                           (Mux_DRAG_pulse.mod_frequency self) (Mux_DRAG_pulse.phase self)
                           (G_phi_skew self) (G_alpha self) of
                      Inl e \<Rightarrow> Inl e
                    | Inr (I_mod, Q_mod) \<Rightarrow>
                        if chan = GI_channel self then iadd_slice wf_arr idx0 idx1 I_mod
                        else iadd_slice wf_arr idx0 idx1 Q_mod))
              else if chan \<in> set [DI_channel self, DQ_channel self]
              then (case subtract_offset
                           (deriv_envelope (Mux_DRAG_pulse.motzoi self)
                              (Mux_DRAG_pulse.sigma self) mu t gauss_env) of
                      Inl e \<Rightarrow> Inl e
                    | Inr der_env \<Rightarrow>
                   (case apply_modulation (replicate (length tvals) 0) der_env
                           (slice idx0 idx1 tvals)
                           (Mux_DRAG_pulse.mod_frequency self) (Mux_DRAG_pulse.phase self)
                           (D_phi_skew self) (D_alpha self) of
                      Inl e \<Rightarrow> Inl e
                    | Inr (I_mod, Q_mod) \<Rightarrow>
                        if chan = DI_channel self then iadd_slice wf_arr idx0 idx1 I_mod
                        else iadd_slice wf_arr idx0 idx1 Q_mod))
              else Inr wf_arr))"

subsection \<open>The derivative-only part of the single pulse\<close>



section \<open>Arrays, window and transform\<close>

lemma bget_nth: "i < length xs \<Longrightarrow> bget xs i = xs ! i"
  by (auto simp: bget_def)

lemma np_where_hd:
  assumes "xs \<noteq> []" "P (xs ! 0)"
  shows "np_where P xs \<noteq> [] \<and> np_where P xs ! 0 = 0"
proof -
  have "[0..<length xs] = 0 # [1..<length xs]"
    using assms(1) by (simp add: upt_conv_Cons)
  then show ?thesis using assms(2) by (simp add: np_where_def)
qed

lemma np_where_last:
  assumes "xs \<noteq> []" "P (last xs)"
  shows "np_where P xs \<noteq> [] \<and> last (np_where P xs) = length xs - 1"
proof -
  obtain n where n: "length xs = Suc n" using assms(1) by (cases xs) auto
  have "last xs = xs ! n" using n assms(1) by (simp add: last_conv_nth)
  then show ?thesis using assms(2) n by (simp add: np_where_def)
qed

lemma np_where_last_less:
  assumes "np_where P xs \<noteq> []"
  shows "last (np_where P xs) < length xs \<and> P (xs ! last (np_where P xs))"
proof -
  have "last (np_where P xs) \<in> set (np_where P xs)" using assms by simp
  then show ?thesis by (simp add: np_where_def)
qed

lemma active_window_full:
  assumes "tvals \<noteq> []" "\<forall>v\<in>set tvals. v \<le> tvals ! 0 + len"
  shows "active_window len tvals = Inr (0, length tvals)"
proof -
  have a: "np_where (\<lambda>v. v \<ge> tvals ! 0) tvals \<noteq> [] \<and> np_where (\<lambda>v. v \<ge> tvals ! 0) tvals ! 0 = 0"
    using assms(1) by (intro np_where_hd) auto
  have "last tvals \<le> tvals ! 0 + len" using assms by simp
  then have b: "np_where (\<lambda>v. v \<le> tvals ! 0 + len) tvals \<noteq> [] \<and>
      last (np_where (\<lambda>v. v \<le> tvals ! 0 + len) tvals) = length tvals - 1"
    using assms(1) by (intro np_where_last) auto
  show ?thesis using a b assms(1) by (simp add: active_window_def Let_def)
qed

lemma active_window_Inr:
  assumes "active_window len tvals = Inr (i0, i1)"
  shows "tvals \<noteq> [] \<and> i0 = 0 \<and> 1 \<le> i1 \<and> i1 \<le> length tvals"
proof -
  have ne: "tvals \<noteq> []" using assms by (auto simp: active_window_def)
  have a: "np_where (\<lambda>v. v \<ge> tvals ! 0) tvals \<noteq> [] \<and> np_where (\<lambda>v. v \<ge> tvals ! 0) tvals ! 0 = 0"
    using ne by (intro np_where_hd) auto
  have le: "np_where (\<lambda>v. v \<le> tvals ! 0 + len) tvals \<noteq> []"
    using assms ne by (auto simp: active_window_def Let_def split: if_splits)
  have i1: "i1 = last (np_where (\<lambda>v. v \<le> tvals ! 0 + len) tvals) + 1" and i0: "i0 = 0"
    using assms ne a le by (auto simp: active_window_def Let_def split: if_splits)
  show ?thesis using ne i0 i1 np_where_last_less[OF le] by simp
qed

lemma apply_modulation_same_length:
  assumes "length I_env = length tvals" "length Q_env = length tvals"
  shows "apply_modulation I_env Q_env tvals f ph sk al =
     Inr (map (\<lambda>i. mod_I_at (2 * pi * f * tvals ! i + radians ph) sk (I_env ! i) (Q_env ! i)) [0..<length tvals],
          map (\<lambda>i. mod_Q_at (2 * pi * f * tvals ! i + radians ph) sk al (I_env ! i) (Q_env ! i)) [0..<length tvals])"
  using assms by (simp add: apply_modulation_def broadcast_shape_def bget_nth)

lemma iadd_slice_full:
  assumes "length v = n"
  shows "iadd_slice (replicate n 0) 0 n v = Inr v"
proof -
  have "map (\<lambda>i. replicate n 0 ! i + bget v i) [0..<n] = v"
    using assms by (auto simp: bget_nth intro: nth_equalityI)
  then show ?thesis using assms by (simp add: iadd_slice_def slice_def Let_def)
qed

lemma place_I:
  assumes "length eI = n" "length eQ = n" "length tv = n" "1 \<le> i1" "i1 \<le> n"
  shows "(case apply_modulation eI eQ (slice 0 i1 tv) f ph sk al of
            Inl e \<Rightarrow> Inl e
          | Inr (I_mod, Q_mod) \<Rightarrow> iadd_slice (replicate n 0) 0 i1 I_mod) =
         (if i1 = n
          then Inr (map (\<lambda>i. mod_I_at (2 * pi * f * tv ! i + radians ph) sk (eI ! i) (eQ ! i)) [0..<n])
          else Inl ValueError)"
proof (cases "i1 = n")
  case True
  then show ?thesis using assms
    by (simp add: slice_def apply_modulation_same_length iadd_slice_full)
next
  case False
  then have lt: "i1 < n" using assms by simp
  have len: "length (slice 0 i1 tv) = i1" "length (slice 0 i1 (replicate n (0::real))) = i1"
    using assms by (simp_all add: slice_def)
  show ?thesis
  proof (cases "i1 = 1")
    case True
    then show ?thesis using lt assms len
      by (simp add: apply_modulation_def broadcast_shape_def iadd_slice_def Let_def)
  next
    case F2: False
    then show ?thesis using lt assms len False
      by (simp add: apply_modulation_def broadcast_shape_def)
  qed
qed

lemma place_Q:
  assumes "length eI = n" "length eQ = n" "length tv = n" "1 \<le> i1" "i1 \<le> n"
  shows "(case apply_modulation eI eQ (slice 0 i1 tv) f ph sk al of
            Inl e \<Rightarrow> Inl e
          | Inr (I_mod, Q_mod) \<Rightarrow> iadd_slice (replicate n 0) 0 i1 Q_mod) =
         (if i1 = n
          then Inr (map (\<lambda>i. mod_Q_at (2 * pi * f * tv ! i + radians ph) sk al (eI ! i) (eQ ! i)) [0..<n])
          else Inl ValueError)"
proof (cases "i1 = n")
  case True
  then show ?thesis using assms
    by (simp add: slice_def apply_modulation_same_length iadd_slice_full)
next
  case False
  then have lt: "i1 < n" using assms by simp
  have len: "length (slice 0 i1 tv) = i1" "length (slice 0 i1 (replicate n (0::real))) = i1"
    using assms by (simp_all add: slice_def)
  show ?thesis
  proof (cases "i1 = 1")
    case True
    then show ?thesis using lt assms len
      by (simp add: apply_modulation_def broadcast_shape_def iadd_slice_def Let_def)
  next
    case F2: False
    then show ?thesis using lt assms len False
      by (simp add: apply_modulation_def broadcast_shape_def)
  qed
qed


lemma length_offset_removed: "length (offset_removed e) = length e"
  by (simp add: offset_removed_def)



lemma SSB_DRAG_chan_wf_char:
  assumes "SSB_DRAG_pulse.I_channel self \<noteq> SSB_DRAG_pulse.Q_channel self"
  shows "SSB_DRAG_chan_wf self chan tvals =
    (case active_window (SSB_DRAG_pulse.length_s self) tvals of
       Inl e \<Rightarrow> Inl e
     | Inr (i0, i1) \<Rightarrow>
        (let n = length tvals;
             t = map (\<lambda>v. v - tvals ! 0) tvals;
             mu = SSB_DRAG_pulse.length_s self / 2;
             tv = (if \<not> SSB_DRAG_pulse.phaselock self then t else tvals);
             G = gauss_envelope (SSB_DRAG_pulse.amplitude self) (SSB_DRAG_pulse.sigma self) mu t;
             g = offset_removed G;
             d = offset_removed (deriv_envelope (SSB_DRAG_pulse.motzoi self) (SSB_DRAG_pulse.sigma self) mu t G);
             x = (\<lambda>i. 2 * pi * SSB_DRAG_pulse.mod_frequency self * tv ! i + radians (SSB_DRAG_pulse.phase self))
         in if chan = SSB_DRAG_pulse.I_channel self
            then (if i1 = n
                  then Inr (map (\<lambda>i. mod_I_at (x i) (SSB_DRAG_pulse.phi_skew self) (g ! i) (d ! i)) [0..<n])
                  else Inl ValueError)
            else if chan = SSB_DRAG_pulse.Q_channel self
            then (if i1 = n
                  then Inr (map (\<lambda>i. mod_Q_at (x i) (SSB_DRAG_pulse.phi_skew self) (SSB_DRAG_pulse.alpha self) (g ! i) (d ! i)) [0..<n])
                  else Inl ValueError)
            else Inr (replicate n 0)))"
proof (cases "active_window (SSB_DRAG_pulse.length_s self) tvals")
  case (Inl e)
  then show ?thesis by (simp add: SSB_DRAG_chan_wf_def)
next
  case (Inr w)
  obtain i0 i1 where w: "w = (i0, i1)" by (cases w)
  from active_window_Inr[OF Inr[unfolded w]]
  have ne: "tvals \<noteq> []" and i0: "i0 = 0" and b: "1 \<le> i1" "i1 \<le> length tvals" by auto
  show ?thesis
  proof (cases "chan = SSB_DRAG_pulse.I_channel self")
    case True
    then have nq: "chan \<noteq> SSB_DRAG_pulse.Q_channel self" using assms by simp
    show ?thesis using Inr w ne i0 b True nq
      by (simp add: SSB_DRAG_chan_wf_def Let_def subtract_offset_def gauss_envelope_def
          deriv_envelope_def place_I length_offset_removed split: sum.splits)
  next
    case False
    show ?thesis
    proof (cases "chan = SSB_DRAG_pulse.Q_channel self")
      case True
      show ?thesis using Inr w ne i0 b False True
        by (simp add: SSB_DRAG_chan_wf_def Let_def subtract_offset_def gauss_envelope_def
            deriv_envelope_def place_Q length_offset_removed)
    next
      case F2: False
      show ?thesis using Inr w ne i0 b False F2
        by (simp add: SSB_DRAG_chan_wf_def Let_def subtract_offset_def gauss_envelope_def
            deriv_envelope_def)
    qed
  qed
qed


lemma Mux_DRAG_chan_wf_char:
  "Mux_DRAG_chan_wf self chan tvals =
    (case active_window (Mux_DRAG_pulse.length_s self) tvals of
       Inl e \<Rightarrow> Inl e
     | Inr (i0, i1) \<Rightarrow>
        (let n = length tvals;
             t = map (\<lambda>v. v - tvals ! 0) tvals;
             mu = Mux_DRAG_pulse.length_s self / 2;
             tv = (if \<not> Mux_DRAG_pulse.phaselock self then t else tvals);
             G = gauss_envelope (Mux_DRAG_pulse.amplitude self) (Mux_DRAG_pulse.sigma self) mu t;
             g = offset_removed G;
             d = offset_removed (deriv_envelope (Mux_DRAG_pulse.motzoi self) (Mux_DRAG_pulse.sigma self) mu t G);
             x = (\<lambda>i. 2 * pi * Mux_DRAG_pulse.mod_frequency self * tv ! i + radians (Mux_DRAG_pulse.phase self))
         in if chan = GI_channel self
            then (if i1 = n
                  then Inr (map (\<lambda>i. mod_I_at (x i) (G_phi_skew self) (g ! i) 0) [0..<n])
                  else Inl ValueError)
            else if chan = GQ_channel self
            then (if i1 = n
                  then Inr (map (\<lambda>i. mod_Q_at (x i) (G_phi_skew self) (G_alpha self) (g ! i) 0) [0..<n])
                  else Inl ValueError)
            else if chan = DI_channel self
            then (if i1 = n
                  then Inr (map (\<lambda>i. mod_I_at (x i) (D_phi_skew self) 0 (d ! i)) [0..<n])
                  else Inl ValueError)
            else if chan = DQ_channel self
            then (if i1 = n
                  then Inr (map (\<lambda>i. mod_Q_at (x i) (D_phi_skew self) (D_alpha self) 0 (d ! i)) [0..<n])
                  else Inl ValueError)
            else Inr (replicate n 0)))"
proof (cases "active_window (Mux_DRAG_pulse.length_s self) tvals")
  case (Inl e)
  then show ?thesis by (simp add: Mux_DRAG_chan_wf_def)
next
  case (Inr w)
  obtain i0 i1 where w: "w = (i0, i1)" by (cases w)
  from active_window_Inr[OF Inr[unfolded w]]
  have ne: "tvals \<noteq> []" and i0: "i0 = 0" and b: "1 \<le> i1" "i1 \<le> length tvals" by auto
  consider (GI) "chan = GI_channel self"
    | (GQ) "chan \<noteq> GI_channel self" "chan = GQ_channel self"
    | (DI) "chan \<noteq> GI_channel self" "chan \<noteq> GQ_channel self" "chan = DI_channel self"
    | (DQ) "chan \<noteq> GI_channel self" "chan \<noteq> GQ_channel self" "chan \<noteq> DI_channel self"
           "chan = DQ_channel self"
    | (other) "chan \<noteq> GI_channel self" "chan \<noteq> GQ_channel self" "chan \<noteq> DI_channel self"
           "chan \<noteq> DQ_channel self"
    by blast
  then show ?thesis
  proof cases
    case GI
    show ?thesis using Inr w ne i0 b GI
      by (simp add: Mux_DRAG_chan_wf_def Let_def subtract_offset_def gauss_envelope_def
          place_I length_offset_removed cong: map_cong cong del: sum.case_cong_weak)
  next
    case GQ
    show ?thesis using Inr w ne i0 b GQ
      by (simp add: Mux_DRAG_chan_wf_def Let_def subtract_offset_def gauss_envelope_def
          place_Q length_offset_removed cong: map_cong cong del: sum.case_cong_weak)
  next
    case DI
    show ?thesis using Inr w ne i0 b DI
      by (simp add: Mux_DRAG_chan_wf_def Let_def subtract_offset_def gauss_envelope_def
          deriv_envelope_def place_I length_offset_removed cong: map_cong cong del: sum.case_cong_weak)
  next
    case DQ
    show ?thesis using Inr w ne i0 b DQ
      by (simp add: Mux_DRAG_chan_wf_def Let_def subtract_offset_def gauss_envelope_def
          deriv_envelope_def place_Q length_offset_removed cong: map_cong cong del: sum.case_cong_weak)
  next
    case other
    show ?thesis using Inr w ne i0 b other
      by (simp add: Mux_DRAG_chan_wf_def Let_def)
  qed
qed








section \<open>Pulses reached by the constructor and updates\<close>

lemma SSB_reachable_length:
  "SSB_DRAG_pulse.length_s (foldl (\<lambda>s kw. SSB_DRAG_call kw s) (SSB_DRAG_init nm I_chan Q_chan kw0) kws) =
   SSB_DRAG_pulse.sigma (foldl (\<lambda>s kw. SSB_DRAG_call kw s) (SSB_DRAG_init nm I_chan Q_chan kw0) kws) *
   SSB_DRAG_pulse.nr_sigma (foldl (\<lambda>s kw. SSB_DRAG_call kw s) (SSB_DRAG_init nm I_chan Q_chan kw0) kws)"
  by (cases kws rule: rev_cases) (simp_all add: SSB_DRAG_call_def SSB_DRAG_init_def Let_def)

lemma Mux_reachable_length:
  "Mux_DRAG_pulse.length_s (foldl (\<lambda>s kw. Mux_DRAG_call kw s) (Mux_DRAG_init nm a b c d kw0) kws) =
   Mux_DRAG_pulse.sigma (foldl (\<lambda>s kw. Mux_DRAG_call kw s) (Mux_DRAG_init nm a b c d kw0) kws) *
   Mux_DRAG_pulse.nr_sigma (foldl (\<lambda>s kw. Mux_DRAG_call kw s) (Mux_DRAG_init nm a b c d kw0) kws)"
  by (cases kws rule: rev_cases) (simp_all add: Mux_DRAG_call_def Mux_DRAG_init_def Let_def)

lemma Mux_reachable_channels:
  "channels (foldl (\<lambda>s kw. Mux_DRAG_call kw s) (Mux_DRAG_init nm a b c d kw0) kws) =
   [GI_channel (foldl (\<lambda>s kw. Mux_DRAG_call kw s) (Mux_DRAG_init nm a b c d kw0) kws),
    GQ_channel (foldl (\<lambda>s kw. Mux_DRAG_call kw s) (Mux_DRAG_init nm a b c d kw0) kws),
    DI_channel (foldl (\<lambda>s kw. Mux_DRAG_call kw s) (Mux_DRAG_init nm a b c d kw0) kws),
    DQ_channel (foldl (\<lambda>s kw. Mux_DRAG_call kw s) (Mux_DRAG_init nm a b c d kw0) kws)]"
  by (cases kws rule: rev_cases) (simp_all add: Mux_DRAG_call_def Mux_DRAG_init_def Let_def)

lemma SSB_DRAG_call_amplitude_only:
  assumes "SSB_DRAG_pulse.length_s s = SSB_DRAG_pulse.sigma s * SSB_DRAG_pulse.nr_sigma s"
  shows "SSB_DRAG_call (no_kw\<lparr>kw_amplitude := Some v\<rparr>) s = s\<lparr>SSB_DRAG_pulse.amplitude := v\<rparr>"
  using assms[symmetric] by (simp add: SSB_DRAG_call_def no_kw_def pop_def Let_def)

lemma Mux_DRAG_call_amplitude_only:
  assumes "Mux_DRAG_pulse.length_s m = Mux_DRAG_pulse.sigma m * Mux_DRAG_pulse.nr_sigma m"
    and "channels m = [GI_channel m, GQ_channel m, DI_channel m, DQ_channel m]"
  shows "Mux_DRAG_call (no_kw\<lparr>kw_amplitude := Some v\<rparr>) m = m\<lparr>Mux_DRAG_pulse.amplitude := v\<rparr>"
  using assms[symmetric] by (simp add: Mux_DRAG_call_def no_kw_def pop_def Let_def)

section \<open>Grids within and beyond the pulse\<close>

text \<open>
  On a grid whose samples all lie within the pulse the block pulse returns the modulated
  constant envelope. On a grid whose last sample lies beyond the pulse the window is
  shorter than the grid, and every owned channel of every pulse raises. A channel that a
  Gaussian pulse does not own gets zeros on every non-empty grid.
\<close>

lemma active_window_cut:
  assumes "tvals \<noteq> []" "0 \<le> len" "tvals ! 0 + len < last tvals"
  shows "\<exists>i1. active_window len tvals = Inr (0, i1) \<and> 1 \<le> i1 \<and> i1 < length tvals"
proof -
  let ?le = "np_where (\<lambda>v. v \<le> tvals ! 0 + len) tvals"
  have a: "np_where (\<lambda>v. v \<ge> tvals ! 0) tvals \<noteq> [] \<and> np_where (\<lambda>v. v \<ge> tvals ! 0) tvals ! 0 = 0"
    using assms(1) by (intro np_where_hd) auto
  have le: "?le \<noteq> []"
    using np_where_hd[of tvals "\<lambda>v. v \<le> tvals ! 0 + len"] assms(1,2) by simp
  have l: "last ?le < length tvals" "tvals ! last ?le \<le> tvals ! 0 + len"
    using np_where_last_less[OF le] by simp_all
  have "last ?le \<noteq> length tvals - 1"
  proof
    assume "last ?le = length tvals - 1"
    then have "tvals ! last ?le = last tvals" using assms(1) by (simp add: last_conv_nth)
    then show False using l(2) assms(3) by simp
  qed
  then have "last ?le + 1 < length tvals" using l(1) by simp
  moreover have "active_window len tvals = Inr (0, last ?le + 1)"
    using a le assms(1) by (simp add: active_window_def Let_def)
  ultimately show ?thesis by simp
qed

lemma SSB_DRAG_chan_wf_cut_grid:
  assumes "tvals \<noteq> []" "0 \<le> SSB_DRAG_pulse.length_s self"
    and "tvals ! 0 + SSB_DRAG_pulse.length_s self < last tvals"
    and "SSB_DRAG_pulse.I_channel self \<noteq> SSB_DRAG_pulse.Q_channel self"
    and "chan = SSB_DRAG_pulse.I_channel self \<or> chan = SSB_DRAG_pulse.Q_channel self"
  shows "SSB_DRAG_chan_wf self chan tvals = Inl ValueError"
proof -
  obtain i1 where "active_window (SSB_DRAG_pulse.length_s self) tvals = Inr (0, i1)"
    "i1 < length tvals"
    using active_window_cut[OF assms(1,2,3)] by blast
  then show ?thesis using assms(5)
    by (auto simp: SSB_DRAG_chan_wf_char[OF assms(4)] Let_def)
qed

lemma Mux_DRAG_chan_wf_cut_grid:
  assumes "tvals \<noteq> []" "0 \<le> Mux_DRAG_pulse.length_s self"
    and "tvals ! 0 + Mux_DRAG_pulse.length_s self < last tvals"
    and "chan \<in> {GI_channel self, GQ_channel self, DI_channel self, DQ_channel self}"
  shows "Mux_DRAG_chan_wf self chan tvals = Inl ValueError"
proof -
  obtain i1 where "active_window (Mux_DRAG_pulse.length_s self) tvals = Inr (0, i1)"
    "i1 < length tvals"
    using active_window_cut[OF assms(1,2,3)] by blast
  then show ?thesis using assms(4)
    by (auto simp: Mux_DRAG_chan_wf_char Let_def)
qed

lemma MW_IQmod_chan_wf_cut_grid:
  assumes "tvals \<noteq> []" "0 \<le> MW_IQmod_pulse.length_s self"
    and "tvals ! 0 + MW_IQmod_pulse.length_s self < last tvals"
    and "chan = MW_IQmod_pulse.I_channel self \<or> chan = MW_IQmod_pulse.Q_channel self"
  shows "MW_IQmod_chan_wf self chan tvals = Inl ValueError"
proof -
  obtain i1 where w: "active_window (MW_IQmod_pulse.length_s self) tvals = Inr (0, i1)"
    and b: "1 \<le> i1" "i1 < length tvals"
    using active_window_cut[OF assms(1,2,3)] by blast
  have b': "i1 \<le> length tvals" "i1 \<noteq> length tvals" using b by simp_all
  show ?thesis
  proof (cases "chan = MW_IQmod_pulse.I_channel self")
    case True
    then show ?thesis using b b'
      by (simp add: MW_IQmod_chan_wf_def w Let_def place_I
          cong del: sum.case_cong_weak)
  next
    case False
    then have "chan = MW_IQmod_pulse.Q_channel self" using assms(4) by simp
    then show ?thesis using False b b'
      by (simp add: MW_IQmod_chan_wf_def w Let_def place_Q
          cong del: sum.case_cong_weak)
  qed
qed

lemma MW_IQmod_chan_wf_within:
  assumes "tvals \<noteq> []" "\<forall>v\<in>set tvals. v \<le> tvals ! 0 + MW_IQmod_pulse.length_s self"
  shows "MW_IQmod_chan_wf self chan tvals =
    (let n = length tvals;
         tv = (if \<not> MW_IQmod_pulse.phaselock self then map (\<lambda>v. v - tvals ! 0) tvals else tvals);
         x = (\<lambda>i. 2 * pi * MW_IQmod_pulse.mod_frequency self * tv ! i
                   + radians (MW_IQmod_pulse.phase self))
     in if chan = MW_IQmod_pulse.I_channel self
        then Inr (map (\<lambda>i. mod_I_at (x i) (MW_IQmod_pulse.phi_skew self) 1 0) [0..<n])
        else if chan = MW_IQmod_pulse.Q_channel self
        then Inr (map (\<lambda>i. mod_Q_at (x i) (MW_IQmod_pulse.phi_skew self)
                              (MW_IQmod_pulse.alpha self) 1 0) [0..<n])
        else Inr (replicate n 0))"
  using assms(1)
  by (simp add: MW_IQmod_chan_wf_def active_window_full[OF assms] Let_def slice_def
      apply_modulation_same_length iadd_slice_full cong: map_cong)

lemma active_window_defined:
  assumes "tvals \<noteq> []" "0 \<le> len"
  shows "\<exists>i1. active_window len tvals = Inr (0, i1)"
proof -
  have a: "np_where (\<lambda>v. v \<ge> tvals ! 0) tvals \<noteq> [] \<and> np_where (\<lambda>v. v \<ge> tvals ! 0) tvals ! 0 = 0"
    using assms(1) by (intro np_where_hd) auto
  have le: "np_where (\<lambda>v. v \<le> tvals ! 0 + len) tvals \<noteq> []"
    using np_where_hd[of tvals "\<lambda>v. v \<le> tvals ! 0 + len"] assms by simp
  show ?thesis using a le assms(1) by (simp add: active_window_def Let_def)
qed

lemma SSB_DRAG_chan_wf_unowned:
  assumes "tvals \<noteq> []" "0 \<le> SSB_DRAG_pulse.length_s self"
    and "chan \<noteq> SSB_DRAG_pulse.I_channel self" "chan \<noteq> SSB_DRAG_pulse.Q_channel self"
  shows "SSB_DRAG_chan_wf self chan tvals = Inr (replicate (length tvals) 0)"
proof -
  obtain i1 where w: "active_window (SSB_DRAG_pulse.length_s self) tvals = Inr (0, i1)"
    using active_window_defined[OF assms(1,2)] by blast
  show ?thesis using assms(1,3,4)
    by (simp add: SSB_DRAG_chan_wf_def w Let_def subtract_offset_def gauss_envelope_def
        deriv_envelope_def)
qed

lemma Mux_DRAG_chan_wf_unowned:
  assumes "tvals \<noteq> []" "0 \<le> Mux_DRAG_pulse.length_s self"
    and "chan \<notin> {GI_channel self, GQ_channel self, DI_channel self, DQ_channel self}"
  shows "Mux_DRAG_chan_wf self chan tvals = Inr (replicate (length tvals) 0)"
proof -
  obtain i1 where w: "active_window (Mux_DRAG_pulse.length_s self) tvals = Inr (0, i1)"
    using active_window_defined[OF assms(1,2)] by blast
  show ?thesis using assms(3)
    by (simp add: Mux_DRAG_chan_wf_char w Let_def)
qed

text \<open>
  A negative length leaves no sample inside the window, and the index \<^verbatim>\<open>[-1]\<close> into
  the empty result of \<^verbatim>\<open>np.where\<close> raises, whatever the channel.
\<close>

lemma chan_wf_negative_length_raises:
  "SSB_DRAG_chan_wf
     (SSB_DRAG_init ''p'' ''I'' ''Q'' (no_kw\<lparr>kw_sigma := Some (- 1)\<rparr>))
     ''ch9'' [0, 1, 2] = Inl IndexError"
  by (simp add: SSB_DRAG_chan_wf_def SSB_DRAG_init_def no_kw_def pop_def active_window_def
      np_where_def Let_def)

section \<open>The transform without predistortion\<close>

text \<open>
  C1. With \<open>alpha = 1\<close> and \<open>phi_skew = 0\<close> the transform of two envelopes as long as the
  time array is plain single-sideband modulation: at every index,
  \<open>mod_I = env_I\<cdot>cos x + env_Q\<cdot>sin x\<close> and \<open>mod_Q = - env_I\<cdot>sin x + env_Q\<cdot>cos x\<close> with
  \<open>x = 2\<pi>\<cdot>mod_frequency\<cdot>t + phase\<close>.
\<close>

theorem apply_modulation_plain_SSB:
  assumes "length env_I = length t" and "length env_Q = length t"
  shows "apply_modulation env_I env_Q t mod_freq ph 0 1 =
     Inr (map (\<lambda>i. env_I ! i * cos (2 * pi * mod_freq * t ! i + radians ph)
                    + env_Q ! i * sin (2 * pi * mod_freq * t ! i + radians ph)) [0..<length t],
          map (\<lambda>i. - env_I ! i * sin (2 * pi * mod_freq * t ! i + radians ph)
                    + env_Q ! i * cos (2 * pi * mod_freq * t ! i + radians ph)) [0..<length t])"
  using assms
  by (simp add: apply_modulation_same_length mod_I_at_def mod_Q_at_def radians_def mult.commute)

theorem apply_modulation_plain_SSB_witness:
  "length [1, 2 :: real] = length [0, 1 :: real] \<and> length [3, 4 :: real] = length [0, 1 :: real] \<and>
   apply_modulation [1, 2] [3, 4] [0, 1] (1 / 4) 0 0 1 = Inr ([1, 4], [3, - 2])"
  using apply_modulation_plain_SSB [of "[1, 2]" "[0, 1]" "[3, 4]" "1 / 4" 0]
  by (simp add: radians_def upt_rec)

section \<open>Waveforms on a grid longer than the pulse\<close>



section \<open>Reconfiguration\<close>

text \<open>
  C4. Every parameter supplied to the update should be stored. The update of the single
  DRAG pulse does not read \<^verbatim>\<open>alpha\<close> and \<^verbatim>\<open>phi_skew\<close>, and the update of the multiplexed
  pulse does not read \<^verbatim>\<open>motzoi\<close>: the values of the constructor stay. The update of the
  block pulse stores \<^verbatim>\<open>alpha\<close>.
\<close>

theorem SSB_DRAG_call_ignores_alpha:
  "SSB_DRAG_pulse.alpha (SSB_DRAG_call (no_kw\<lparr>kw_alpha := Some 2\<rparr>) (SSB_DRAG_init ''p'' ''I'' ''Q'' no_kw)) = 1 \<and>
   SSB_DRAG_pulse.phi_skew (SSB_DRAG_call (no_kw\<lparr>kw_phi_skew := Some 5\<rparr>) (SSB_DRAG_init ''p'' ''I'' ''Q'' no_kw)) = 0 \<and>
   Mux_DRAG_pulse.motzoi (Mux_DRAG_call (no_kw\<lparr>kw_motzoi := Some 0\<rparr>)
      (Mux_DRAG_init ''p'' ''ch1'' ''ch2'' ''ch3'' ''ch4'' no_kw)) = 1 \<and>
   MW_IQmod_pulse.alpha (MW_IQmod_call (no_kw\<lparr>kw_alpha := Some 2\<rparr>) (MW_IQmod_init ''p'' ''I'' ''Q'' no_kw)) = 2"
  by (simp add: SSB_DRAG_call_def SSB_DRAG_init_def Mux_DRAG_call_def Mux_DRAG_init_def
      MW_IQmod_call_def MW_IQmod_init_def no_kw_def pop_def Let_def)

text \<open>
  C8. After the constructor and after every update of a pulse of the Gaussian family, the
  stored length is the product of the stored sigma and nr_sigma.
\<close>

theorem DRAG_length_is_sigma_times_nr_sigma:
  "SSB_DRAG_pulse.length_s (SSB_DRAG_init nm I_chan Q_chan kw) =
     SSB_DRAG_pulse.sigma (SSB_DRAG_init nm I_chan Q_chan kw)
       * SSB_DRAG_pulse.nr_sigma (SSB_DRAG_init nm I_chan Q_chan kw) \<and>
   SSB_DRAG_pulse.length_s (SSB_DRAG_call kw s) =
     SSB_DRAG_pulse.sigma (SSB_DRAG_call kw s) * SSB_DRAG_pulse.nr_sigma (SSB_DRAG_call kw s) \<and>
   Mux_DRAG_pulse.length_s (Mux_DRAG_init nm GI_chan GQ_chan DI_chan DQ_chan kw) =
     Mux_DRAG_pulse.sigma (Mux_DRAG_init nm GI_chan GQ_chan DI_chan DQ_chan kw)
       * Mux_DRAG_pulse.nr_sigma (Mux_DRAG_init nm GI_chan GQ_chan DI_chan DQ_chan kw) \<and>
   Mux_DRAG_pulse.length_s (Mux_DRAG_call kw m) =
     Mux_DRAG_pulse.sigma (Mux_DRAG_call kw m) * Mux_DRAG_pulse.nr_sigma (Mux_DRAG_call kw m)"
  by (simp add: SSB_DRAG_call_def SSB_DRAG_init_def Mux_DRAG_call_def Mux_DRAG_init_def Let_def)

text \<open>
  C9. An update that supplies the amplitude only changes the amplitude only: every other
  attribute, the derived length included, keeps its value, and the pulse returned is the
  updated one. For the Gaussian family this is stated for every pulse reached from the
  constructor by any sequence of updates.
\<close>

theorem reconfigure_amplitude_only:
  "MW_IQmod_call (no_kw\<lparr>kw_amplitude := Some v\<rparr>) p = p\<lparr>MW_IQmod_pulse.amplitude := v\<rparr> \<and>
   SSB_DRAG_call (no_kw\<lparr>kw_amplitude := Some v\<rparr>)
       (foldl (\<lambda>s kw. SSB_DRAG_call kw s) (SSB_DRAG_init nm I_chan Q_chan kw0) kws)
     = (foldl (\<lambda>s kw. SSB_DRAG_call kw s) (SSB_DRAG_init nm I_chan Q_chan kw0) kws)
         \<lparr>SSB_DRAG_pulse.amplitude := v\<rparr> \<and>
   Mux_DRAG_call (no_kw\<lparr>kw_amplitude := Some v\<rparr>)
       (foldl (\<lambda>s kw. Mux_DRAG_call kw s) (Mux_DRAG_init nm GI_chan GQ_chan DI_chan DQ_chan kw0) kws)
     = (foldl (\<lambda>s kw. Mux_DRAG_call kw s) (Mux_DRAG_init nm GI_chan GQ_chan DI_chan DQ_chan kw0) kws)
         \<lparr>Mux_DRAG_pulse.amplitude := v\<rparr>"
  by (simp add: SSB_DRAG_call_amplitude_only[OF SSB_reachable_length]
      Mux_DRAG_call_amplitude_only[OF Mux_reachable_length Mux_reachable_channels])
     (simp add: MW_IQmod_call_def no_kw_def pop_def)

section \<open>The block pulse and its amplitude\<close>

text \<open>
  C10. The waveform of the block pulse does not depend on its amplitude: two pulses that
  differ in the amplitude only give the same result for every channel and time grid.
\<close>

theorem MW_IQmod_chan_wf_ignores_amplitude:
  "MW_IQmod_chan_wf (self\<lparr>MW_IQmod_pulse.amplitude := a\<rparr>) chan tvals =
   MW_IQmod_chan_wf (self\<lparr>MW_IQmod_pulse.amplitude := b\<rparr>) chan tvals"
  by (simp add: MW_IQmod_chan_wf_def Let_def cong: if_cong cong del: sum.case_cong_weak)

section \<open>The multiplexed pulse against the single pulse\<close>



section \<open>The Gaussian pulse without derivative\<close>




section \<open>Baseline correction\<close>



end
